theory Spec2Isabelle
  imports Complex_Main
begin

section \<open>CameraBounds: a camera guard on top of a globe engine\<close>

text \<open>
  The development embeds \<^verbatim>\<open>src/CameraBounds.js\<close>: the two geometric tests, the
  per-frame check that reverts the camera or records its pose, and the bookkeeping of the
  single \<^verbatim>\<open>preRender\<close> listener.

  JavaScript numbers are modelled as \<^typ>\<open>real\<close>: the class itself only compares numbers
  (\<^verbatim>\<open>>=\<close>, \<^verbatim>\<open><=\<close>, \<^verbatim>\<open>>\<close>), and on finite doubles these comparisons are the
  comparisons of the reals they denote. NaN and the rounding inside the engine's own
  arithmetic are outside the model.
\<close>

subsection \<open>Values\<close>

text \<open>A \<^verbatim>\<open>Cesium.Cartesian3\<close> holds the three numbers x, y, z.\<close>

datatype cartesian3 = Cartesian3 real real real

text \<open>A \<^verbatim>\<open>Cesium.Cartographic\<close>: longitude and latitude in radians, height in metres.\<close>

record cartographic =
  longitude :: real
  latitude :: real
  height :: real

text \<open>The object literal \<^verbatim>\<open>{heading, pitch, roll}\<close> of lines 130-134.\<close>

record orientation =
  heading :: real
  pitch :: real
  roll :: real

text \<open>
  Objects that the code shares and the engine mutates in place live in a store: a
  reference is an index into the list of allocated \<^verbatim>\<open>Cartesian3\<close> objects.
\<close>

type_synonym ref = nat

text \<open>
  The camera offers \<^verbatim>\<open>heading\<close>, \<^verbatim>\<open>pitch\<close>, \<^verbatim>\<open>roll\<close> as numbers and
  \<^verbatim>\<open>position\<close> as an object of its own, which the engine overwrites when the camera moves.
\<close>

record camera = orientation +
  position :: ref

text \<open>
  The argument of the entity test: an object with a \<^verbatim>\<open>primitive\<close> property is read
  through \<^verbatim>\<open>entity.primitive.position\<close>, any other through
  \<^verbatim>\<open>entity.position.getValue()\<close> (lines 37-41). \<open>None\<close> is a position that does not
  resolve (\<^verbatim>\<open>undefined\<close>).
\<close>

datatype entity = HasPrimitive "cartesian3 option" | HasPosition "cartesian3 option"

text \<open>
  \<^verbatim>\<open>limitCamera(distanceTestFunction, parameters)\<close> is called by \<^verbatim>\<open>limitBBOX\<close> and
  \<^verbatim>\<open>limitEntity\<close> only; the pair of the test method and its parameter array is one of:
\<close>

datatype test =
  TestCameraBBOX real real real real real
| TestCameraDistanceFromEntity entity real real

text \<open>A raise inside a test (reading a property of \<^verbatim>\<open>undefined\<close>).\<close>

datatype error = TypeError

text \<open>What the guard does to its collaborators, in the order it does it.\<close>

datatype effect =
  AddEventListener nat
| RemoveEventListener nat
| SetView "ref option" "orientation option"
| DispatchEvent string

subsection \<open>The engine\<close>

text \<open>
  Modelled from the spec: the geometry of the host engine (Cesium), which is not part of
  the repository. Section 6 of the specification lists what the guard reads: the camera's
  geodetic longitude, latitude and height (\<^verbatim>\<open>camera.positionCartographic\<close>, computed by
  the engine from the camera position) and the projection onto the surface of the reference
  ellipsoid (\<^verbatim>\<open>ellipsoid.scaleToGeodeticSurface\<close>, \<^verbatim>\<open>undefined\<close> at the centre of the
  ellipsoid). Both are parameters of the model, as is the orientation the engine falls back
  to when \<^verbatim>\<open>setView\<close> is given none.
\<close>

record engine =
  positionCartographic :: "cartesian3 \<Rightarrow> cartographic"
  scaleToGeodeticSurface :: "cartesian3 \<Rightarrow> cartesian3 option"
  defaultOrientation :: orientation

text \<open>
  Modelled from the spec: \<^verbatim>\<open>Cesium.Math.toDegrees\<close>, the conversion of radians to
  degrees.
\<close>

definition toDegrees :: "real \<Rightarrow> real" where
  "toDegrees radians = radians * (180 / pi)"

text \<open>
  Modelled from the spec: \<^verbatim>\<open>Cesium.Cartesian3.distance\<close>, the engine's
  distance-between-two-points function (section 6): the length of the straight segment
  between the two points.
\<close>

fun Cartesian3_distance :: "cartesian3 \<Rightarrow> cartesian3 \<Rightarrow> real" where
  "Cartesian3_distance (Cartesian3 x1 y1 z1) (Cartesian3 x2 y2 z2) =
     sqrt ((x1 - x2)\<^sup>2 + (y1 - y2)\<^sup>2 + (z1 - z2)\<^sup>2)"

text \<open>Modelled from the spec: \<^verbatim>\<open>Cesium.defined\<close>, neither \<^verbatim>\<open>undefined\<close> nor \<^verbatim>\<open>null\<close>.\<close>

definition Cesium_defined :: "'a option \<Rightarrow> bool" where
  "Cesium_defined v = (v \<noteq> None)"

subsection \<open>The state\<close>

text \<open>
  One record for the viewer and the guard attached to it. Of the viewer: the store, the
  camera, and the listeners of \<^verbatim>\<open>scene.preRender\<close> (each registration with the
  number that identifies it; the function \<^verbatim>\<open>addEventListener\<close> returns removes exactly
  that registration). Of the guard: the three fields set by \<^verbatim>\<open>init\<close>. \<open>trace\<close> logs the
  effects.
\<close>

record state =
  heap :: "cartesian3 list"
  camera :: camera
  preRender :: "(nat \<times> test) list"
  nextListener :: nat
  cameraMovementListener :: "nat option"
  previousCameraPosition :: "ref option"
  previousCameraOrientation :: "orientation option"
  trace :: "effect list"

text \<open>A new object in the store.\<close>

definition alloc :: "cartesian3 \<Rightarrow> state \<Rightarrow> ref \<times> state" where
  "alloc v st = (length (heap st), st\<lparr>heap := heap st @ [v]\<rparr>)"

text \<open>
  Modelled from the spec: \<^verbatim>\<open>Cesium.Cartesian3.clone(c)\<close>, a new object with the
  numbers of \<open>c\<close>.
\<close>

definition Cartesian3_clone :: "ref \<Rightarrow> state \<Rightarrow> ref \<times> state" where
  "Cartesian3_clone r st = alloc (heap st ! r) st"

text \<open>
  Modelled from the spec: the engine's "set camera pose now" (\<^verbatim>\<open>camera.setView\<close>),
  instantaneous. The numbers of the destination are copied into the camera's own position
  object; a destination that is \<^verbatim>\<open>null\<close> leaves the position, an orientation that is
  \<^verbatim>\<open>null\<close> gives the engine's default.
\<close>

definition setView :: "engine \<Rightarrow> ref option \<Rightarrow> orientation option \<Rightarrow> state \<Rightarrow> state" where
  "setView eng destination orient st =
     (let hpr = (case orient of None \<Rightarrow> defaultOrientation eng | Some v \<Rightarrow> v)
      in st\<lparr>heap := (case destination of
                        None \<Rightarrow> heap st
                      | Some r \<Rightarrow> (heap st)[position (camera st) := heap st ! r]),
             camera := (camera st)\<lparr>heading := heading hpr, pitch := pitch hpr, roll := roll hpr\<rparr>,
             trace := trace st @ [SetView destination orient]\<rparr>)"

text \<open>
  Modelled from the spec: camera motion by the host (user input, flights): the engine
  overwrites the camera's position object and its angles.
\<close>

definition moveCamera :: "cartesian3 \<Rightarrow> orientation \<Rightarrow> state \<Rightarrow> state" where
  "moveCamera p hpr st =
     st\<lparr>heap := (heap st)[position (camera st) := p],
        camera := (camera st)\<lparr>heading := heading hpr, pitch := pitch hpr, roll := roll hpr\<rparr>\<rparr>"

text \<open>\<^verbatim>\<open>this.dispatchEvent(new Event(type))\<close> of the \<^verbatim>\<open>EventTarget\<close> base class.\<close>

definition dispatchEvent :: "string \<Rightarrow> state \<Rightarrow> state" where
  "dispatchEvent type st = st\<lparr>trace := trace st @ [DispatchEvent type]\<rparr>"

text \<open>
  Modelled from the spec: the per-frame notification channel (\<^verbatim>\<open>scene.preRender\<close>).
  Subscribing returns a handle; calling the handle removes that registration and does
  nothing when it is already gone.
\<close>

definition addEventListener :: "test \<Rightarrow> state \<Rightarrow> nat \<times> state" where
  "addEventListener t st =
     (nextListener st,
      st\<lparr>preRender := preRender st @ [(nextListener st, t)],
         nextListener := Suc (nextListener st),
         trace := trace st @ [AddEventListener (nextListener st)]\<rparr>)"

fun removeFirst :: "nat \<Rightarrow> (nat \<times> test) list \<Rightarrow> (nat \<times> test) list" where
  "removeFirst h [] = []"
| "removeFirst h ((i, t) # ls) = (if i = h then ls else (i, t) # removeFirst h ls)"

definition callHandle :: "nat \<Rightarrow> state \<Rightarrow> state" where
  "callHandle h st =
     st\<lparr>preRender := removeFirst h (preRender st),
        trace := trace st @ [RemoveEventListener h]\<rparr>"

subsection \<open>The class\<close>

text \<open>\<^verbatim>\<open>init()\<close>, lines 20-25.\<close>

definition init :: "state \<Rightarrow> state" where
  "init st = st\<lparr>cameraMovementListener := None,
                previousCameraPosition := None,
                previousCameraOrientation := None\<rparr>"

text \<open>
  \<^verbatim>\<open>new CameraBounds(viewer)\<close>, lines 11-15, for a viewer with the given store and
  camera and no listener of the guard's yet.
\<close>

definition CameraBounds :: "cartesian3 list \<Rightarrow> camera \<Rightarrow> state" where
  "CameraBounds h c =
     init \<lparr>heap = h, camera = c, preRender = [], nextListener = 0,
           cameraMovementListener = None, previousCameraPosition = None,
           previousCameraOrientation = None, trace = []\<rparr>"

text \<open>
  The expression \<^verbatim>\<open>ellipsoid.scaleToGeodeticSurface(p, ellipsoid.cartesianToCartographic(p))\<close>
  of lines 47-54. The second argument is the object the engine stores the result in: here
  the object \<^verbatim>\<open>cartesianToCartographic\<close> has just made, so the projection arrives in an
  object nobody else holds.
\<close>

definition projectOnEllipsoid :: "engine \<Rightarrow> cartesian3 \<Rightarrow> state \<Rightarrow> ref option \<times> state" where
  "projectOnEllipsoid eng p st =
     (case scaleToGeodeticSurface eng p of
        None \<Rightarrow> (None, st)
      | Some q \<Rightarrow> (let (r, st') = alloc q st in (Some r, st')))"

text \<open>
  Lines 35-41: the position of the entity, \<^verbatim>\<open>entity.primitive.position\<close> or
  \<^verbatim>\<open>entity.position.getValue()\<close>.
\<close>

fun entityPosition :: "entity \<Rightarrow> cartesian3 option" where
  "entityPosition (HasPrimitive p) = p"
| "entityPosition (HasPosition p) = p"

text \<open>
  \<^verbatim>\<open>testCameraDistanceFromEntity(entity, distance, z)\<close>, lines 34-63. \<open>True\<close> is
  "out of bounds". The camera is projected first, then the entity; a position or a
  projection that is \<^verbatim>\<open>undefined\<close> raises inside the engine.
\<close>

definition testCameraDistanceFromEntity ::
    "engine \<Rightarrow> entity \<Rightarrow> real \<Rightarrow> real \<Rightarrow> state \<Rightarrow> (error + bool) \<times> state" where
  "testCameraDistanceFromEntity eng entity distance z st =
     (let cameraPosition = heap st ! position (camera st);
          (cameraPositionOnEllipsoid, st1) = projectOnEllipsoid eng cameraPosition st
      in case entityPosition entity of
           None \<Rightarrow> (Inl TypeError, st1)
         | Some ep \<Rightarrow>
             (let (entityPositionOnEllipsoid, st2) = projectOnEllipsoid eng ep st1
              in case (cameraPositionOnEllipsoid, entityPositionOnEllipsoid) of
                   (Some a, Some b) \<Rightarrow>
                     (let distCamera = Cartesian3_distance (heap st2 ! a) (heap st2 ! b);
                          cameraCartographic =
                            positionCartographic eng (heap st2 ! position (camera st2));
                          cameraHeight = height cameraCartographic
                      in (Inr (distCamera > distance \<or> cameraHeight > z), st2))
                 | _ \<Rightarrow> (Inl TypeError, st2)))"

text \<open>
  \<^verbatim>\<open>testCameraBBOX(xmin, ymin, xmax, ymax, zmax)\<close>, lines 74-85. \<open>True\<close> is
  "out of bounds".
\<close>

definition testCameraBBOX ::
    "engine \<Rightarrow> real \<Rightarrow> real \<Rightarrow> real \<Rightarrow> real \<Rightarrow> real \<Rightarrow> state \<Rightarrow> (error + bool) \<times> state" where
  "testCameraBBOX eng xmin ymin xmax ymax zmax st =
     (let cameraPosition = positionCartographic eng (heap st ! position (camera st));
          lon = toDegrees (longitude cameraPosition);
          lat = toDegrees (latitude cameraPosition);
          z = height cameraPosition
      in (Inr (\<not> (lon \<ge> xmin \<and> lon \<le> xmax \<and> lat \<ge> ymin \<and> lat \<le> ymax \<and> z \<le> zmax)), st))"

text \<open>\<^verbatim>\<open>distanceTestFunction.apply(this, parameters)\<close>, line 121.\<close>

fun apply_test :: "engine \<Rightarrow> test \<Rightarrow> state \<Rightarrow> (error + bool) \<times> state" where
  "apply_test eng (TestCameraBBOX xmin ymin xmax ymax zmax) st =
     testCameraBBOX eng xmin ymin xmax ymax zmax st"
| "apply_test eng (TestCameraDistanceFromEntity entity distance z) st =
     testCameraDistanceFromEntity eng entity distance z st"

text \<open>
  \<^verbatim>\<open>disableCameraMovementLimitation()\<close>, lines 145-150: the handle, when there is one,
  is called and forgotten.
\<close>

definition disableCameraMovementLimitation :: "state \<Rightarrow> state" where
  "disableCameraMovementLimitation st =
     (if Cesium_defined (cameraMovementListener st)
      then (callHandle (the (cameraMovementListener st)) st)\<lparr>cameraMovementListener := None\<rparr>
      else st)"

text \<open>
  The closure \<^verbatim>\<open>checkCameraPosition\<close> of lines 119-136, for the test it has captured.
  A raise of the test leaves the callback at once, with the state as it is then.
\<close>

definition checkCameraPosition :: "engine \<Rightarrow> test \<Rightarrow> state \<Rightarrow> (error + unit) \<times> state" where
  "checkCameraPosition eng t st =
     (case apply_test eng t st of
        (Inl e, st1) \<Rightarrow> (Inl e, st1)
      | (Inr True, st1) \<Rightarrow>
          (Inr (),
           dispatchEvent ''cameraBlocked''
             (setView eng (previousCameraPosition st1) (previousCameraOrientation st1) st1))
      | (Inr False, st1) \<Rightarrow>
          (let (r, st2) = Cartesian3_clone (position (camera st1)) st1
           in (Inr (),
               st2\<lparr>previousCameraPosition := Some r,
                   previousCameraOrientation :=
                     Some \<lparr>heading = heading (camera st2),
                           pitch = pitch (camera st2),
                           roll = roll (camera st2)\<rparr>\<rparr>)))"

text \<open>\<^verbatim>\<open>limitCamera(distanceTestFunction, parameters)\<close>, lines 114-140.\<close>

definition limitCamera :: "test \<Rightarrow> state \<Rightarrow> state" where
  "limitCamera t st =
     (let st1 = disableCameraMovementLimitation st;
          (h, st2) = addEventListener t st1
      in st2\<lparr>cameraMovementListener := Some h\<rparr>)"

text \<open>\<^verbatim>\<open>limitBBOX(xmin, ymin, xmax, ymax, zmax)\<close>, lines 95-97.\<close>

definition limitBBOX :: "real \<Rightarrow> real \<Rightarrow> real \<Rightarrow> real \<Rightarrow> real \<Rightarrow> state \<Rightarrow> state" where
  "limitBBOX xmin ymin xmax ymax zmax st =
     limitCamera (TestCameraBBOX xmin ymin xmax ymax zmax) st"

text \<open>\<^verbatim>\<open>limitEntity(entity, distance, z)\<close>, lines 105-107.\<close>

definition limitEntity :: "entity \<Rightarrow> real \<Rightarrow> real \<Rightarrow> state \<Rightarrow> state" where
  "limitEntity entity distance z st =
     limitCamera (TestCameraDistanceFromEntity entity distance z) st"

subsection \<open>A frame\<close>

text \<open>
  Modelled from the spec: the engine raises \<^verbatim>\<open>preRender\<close> before each frame and calls
  the registered listeners in the order of their registration; a raise of a listener ends
  the notification.
\<close>

fun runListeners :: "engine \<Rightarrow> (nat \<times> test) list \<Rightarrow> state \<Rightarrow> (error + unit) \<times> state" where
  "runListeners eng [] st = (Inr (), st)"
| "runListeners eng ((h, t) # ls) st =
     (case checkCameraPosition eng t st of
        (Inl e, st') \<Rightarrow> (Inl e, st')
      | (Inr u, st') \<Rightarrow> runListeners eng ls st')"

definition raiseEvent :: "engine \<Rightarrow> state \<Rightarrow> (error + unit) \<times> state" where
  "raiseEvent eng st = runListeners eng (preRender st) st"

subsection \<open>Observations\<close>

text \<open>The camera's geodetic longitude and latitude in degrees, and its height.\<close>

definition cameraLongitude :: "engine \<Rightarrow> state \<Rightarrow> real" where
  "cameraLongitude eng st =
     toDegrees (longitude (positionCartographic eng (heap st ! position (camera st))))"

definition cameraLatitude :: "engine \<Rightarrow> state \<Rightarrow> real" where
  "cameraLatitude eng st =
     toDegrees (latitude (positionCartographic eng (heap st ! position (camera st))))"

definition cameraHeight :: "engine \<Rightarrow> state \<Rightarrow> real" where
  "cameraHeight eng st = height (positionCartographic eng (heap st ! position (camera st)))"

text \<open>
  A pose is a position with an orientation. The camera's pose is read through its position
  object; the last valid pose is what the two \<^verbatim>\<open>previousCamera...\<close> fields hold,
  \<open>None\<close> while they are \<^verbatim>\<open>null\<close>.
\<close>

definition cameraPose :: "state \<Rightarrow> cartesian3 \<times> orientation" where
  "cameraPose st =
     (heap st ! position (camera st),
      \<lparr>heading = heading (camera st), pitch = pitch (camera st), roll = roll (camera st)\<rparr>)"

definition lastValidPose :: "state \<Rightarrow> (cartesian3 \<times> orientation) option" where
  "lastValidPose st =
     (case (previousCameraPosition st, previousCameraOrientation st) of
        (Some r, Some hpr) \<Rightarrow> Some (heap st ! r, hpr)
      | _ \<Rightarrow> None)"

text \<open>The objects the state refers to exist.\<close>

definition wellFormed :: "state \<Rightarrow> bool" where
  "wellFormed st \<longleftrightarrow>
     position (camera st) < length (heap st) \<and>
     (case previousCameraPosition st of None \<Rightarrow> True | Some r \<Rightarrow> r < length (heap st))"

text \<open>
  Well-formed, and the handle the guard keeps names the one registration on
  \<^verbatim>\<open>preRender\<close>, made earlier.
\<close>

definition guardInvariant :: "state \<Rightarrow> bool" where
  "guardInvariant st \<longleftrightarrow>
     wellFormed st \<and>
     map fst (preRender st) =
       (case cameraMovementListener st of None \<Rightarrow> [] | Some h \<Rightarrow> [h]) \<and>
     (case cameraMovementListener st of None \<Rightarrow> True | Some h \<Rightarrow> h < nextListener st)"

text \<open>
  The states a guard gets into through the operations the README documents: it is created
  on a viewer, constraints are installed and released, the host moves the camera, and the
  engine raises \<^verbatim>\<open>preRender\<close>. (\<^verbatim>\<open>init\<close> is called by the constructor only.)
\<close>

inductive reachable :: "engine \<Rightarrow> state \<Rightarrow> bool" for eng :: engine where
  created: "position c < length h \<Longrightarrow> reachable eng (CameraBounds h c)"
| bbox: "reachable eng st \<Longrightarrow> reachable eng (limitBBOX xmin ymin xmax ymax zmax st)"
| entity: "reachable eng st \<Longrightarrow> reachable eng (limitEntity ent distance zmax st)"
| released: "reachable eng st \<Longrightarrow> reachable eng (disableCameraMovementLimitation st)"
| moved: "reachable eng st \<Longrightarrow> reachable eng (moveCamera p hpr st)"
| frame: "reachable eng st \<Longrightarrow> reachable eng (snd (raiseEvent eng st))"

text \<open>What follows a state while no constraint is installed or released: frames and motion.\<close>

inductive later :: "engine \<Rightarrow> state \<Rightarrow> state \<Rightarrow> bool" for eng :: engine and st :: state where
  now: "later eng st st"
| moved: "later eng st st1 \<Longrightarrow> later eng st (moveCamera p hpr st1)"
| frame: "later eng st st1 \<Longrightarrow> later eng st (snd (raiseEvent eng st1))"

text \<open>
  Following the spec's words: "measured along the reference ellipsoid surface, i.e.,
  great-circle-like projected distance, not straight-line 3D distance". On the sphere of
  radius 1 the length of the great-circle arc between two points of the surface is the
  angle between them.
\<close>

fun greatCircleDistance :: "cartesian3 \<Rightarrow> cartesian3 \<Rightarrow> real" where
  "greatCircleDistance (Cartesian3 x1 y1 z1) (Cartesian3 x2 y2 z2) =
     arccos (x1 * x2 + y1 * y2 + z1 * z2)"

text \<open>
  Following the spec's words: the entity test as the specification describes it on the
  unit sphere, with the distance of the two projected points taken along the surface.
\<close>

definition outOfBoundsAlongSurface ::
    "engine \<Rightarrow> entity \<Rightarrow> real \<Rightarrow> real \<Rightarrow> state \<Rightarrow> bool" where
  "outOfBoundsAlongSurface eng ent distance zmax st \<longleftrightarrow>
     (case (scaleToGeodeticSurface eng (fst (cameraPose st)), entityPosition ent) of
        (Some a, Some ep) \<Rightarrow>
          (case scaleToGeodeticSurface eng ep of
             Some b \<Rightarrow> distance < greatCircleDistance a b \<or> zmax < cameraHeight eng st
           | None \<Rightarrow> False)
      | _ \<Rightarrow> False)"

subsection \<open>Inputs for the examples\<close>

text \<open>
  A stand-in engine for the examples: it reads the three numbers of a camera position as
  degrees east, degrees north and metres above the surface, and projects by dropping the
  height.
\<close>

definition flatEngine :: engine where
  "flatEngine =
     \<lparr>positionCartographic =
        (\<lambda>c. case c of Cartesian3 a b h \<Rightarrow>
           \<lparr>longitude = a * (pi / 180), latitude = b * (pi / 180), height = h\<rparr>),
      scaleToGeodeticSurface = (\<lambda>c. case c of Cartesian3 a b h \<Rightarrow> Some (Cartesian3 a b 0)),
      defaultOrientation = \<lparr>heading = 0, pitch = - (pi / 2), roll = 0\<rparr>\<rparr>"

text \<open>
  An engine whose reference ellipsoid is the sphere of radius 1 around the origin
  (\<^verbatim>\<open>Cesium.Ellipsoid.UNIT_SPHERE\<close>): the projection scales a point to length 1, the
  height is the distance from the origin less 1.
\<close>

fun magnitude :: "cartesian3 \<Rightarrow> real" where
  "magnitude (Cartesian3 a b c) = sqrt (a\<^sup>2 + b\<^sup>2 + c\<^sup>2)"

definition atan2 :: "real \<Rightarrow> real \<Rightarrow> real" where
  "atan2 b a =
     (if 0 < a then arctan (b / a)
      else if a < 0 then (if 0 \<le> b then arctan (b / a) + pi else arctan (b / a) - pi)
      else if 0 < b then pi / 2
      else if b < 0 then - (pi / 2)
      else 0)"

definition unitSphere :: engine where
  "unitSphere =
     \<lparr>positionCartographic =
        (\<lambda>c. case c of Cartesian3 a b h \<Rightarrow>
           \<lparr>longitude = atan2 b a, latitude = arcsin (h / magnitude c),
            height = magnitude c - 1\<rparr>),
      scaleToGeodeticSurface =
        (\<lambda>c. case c of Cartesian3 a b h \<Rightarrow>
           if magnitude c = 0 then None
           else Some (Cartesian3 (a / magnitude c) (b / magnitude c) (h / magnitude c))),
      defaultOrientation = \<lparr>heading = 0, pitch = - (pi / 2), roll = 0\<rparr>\<rparr>"

text \<open>A new guard on a viewer whose camera stands at the given place.\<close>

definition cameraAt :: "real \<Rightarrow> real \<Rightarrow> real \<Rightarrow> state" where
  "cameraAt a b h =
     CameraBounds [Cartesian3 a b h] \<lparr>heading = 0, pitch = 0, roll = 0, position = 0\<rparr>"

text \<open>
  The box of the specification's first scenario, installed on a camera inside it; the
  state after the first frame, which records the pose; and the state after the host has
  then moved the camera out of the box.
\<close>

definition exampleBox :: test where
  "exampleBox = TestCameraBBOX (-80) 30 (-70) 40 10000"

definition exampleInstalled :: state where
  "exampleInstalled = limitBBOX (-80) 30 (-70) 40 10000 (cameraAt (-75) 35 5000)"

definition exampleRecorded :: state where
  "exampleRecorded = snd (raiseEvent flatEngine exampleInstalled)"

definition exampleOutside :: state where
  "exampleOutside =
     moveCamera (Cartesian3 (-69) 35 5000) \<lparr>heading = 1, pitch = 0, roll = 0\<rparr> exampleRecorded"

text \<open>The same box installed on a camera that starts outside it.\<close>

definition exampleStartsOutside :: state where
  "exampleStartsOutside = limitBBOX (-80) 30 (-70) 40 10000 (cameraAt (-69) 35 5000)"

text \<open>
  A second box, which does not hold the camera, installed in place of the first after
  the first has recorded a pose and the camera has moved.
\<close>

definition exampleReplaced :: state where
  "exampleReplaced = limitBBOX 0 0 10 10 10000 exampleOutside"

text \<open>An entity constraint whose entity has no position that resolves.\<close>

definition exampleUnresolved :: state where
  "exampleUnresolved = limitEntity (HasPosition None) 500 100 (cameraAt (-75) 35 5000)"

text \<open>An entity on the unit sphere, opposite a camera at \<open>cameraAt 2 0 0\<close>.\<close>

definition exampleAntipode :: entity where
  "exampleAntipode = HasPrimitive (Some (Cartesian3 (-1) 0 0))"

section \<open>Properties\<close>

subsection \<open>The stand-in engine\<close>

lemma flat_lon: "cameraLongitude flatEngine (cameraAt a b h) = a"
  by (simp add: cameraLongitude_def flatEngine_def cameraAt_def CameraBounds_def init_def
      toDegrees_def)

lemma flat_lat: "cameraLatitude flatEngine (cameraAt a b h) = b"
  by (simp add: cameraLatitude_def flatEngine_def cameraAt_def CameraBounds_def init_def
      toDegrees_def)

lemma flat_height: "cameraHeight flatEngine (cameraAt a b h) = h"
  by (simp add: cameraHeight_def flatEngine_def cameraAt_def CameraBounds_def init_def)

subsection \<open>The bounding-box test\<close>

text \<open>
  C2. For every camera pose, \<^verbatim>\<open>testCameraBBOX(xmin, ymin, xmax, ymax, zmax)\<close> answers
  "in bounds" (\<open>False\<close>) exactly when the camera's longitude in degrees lies in the closed
  interval from \<open>xmin\<close> to \<open>xmax\<close>, its latitude in degrees in the closed interval from
  \<open>ymin\<close> to \<open>ymax\<close>, and its height is at most \<open>zmax\<close>; it answers "out of bounds"
  (\<open>True\<close>) exactly when the pose is strictly outside one of the four edges or above the
  ceiling. The test never raises.
\<close>

theorem testCameraBBOX_closed_box:
  "(fst (testCameraBBOX eng xmin ymin xmax ymax zmax st) = Inr False \<longleftrightarrow>
      xmin \<le> cameraLongitude eng st \<and> cameraLongitude eng st \<le> xmax \<and>
      ymin \<le> cameraLatitude eng st \<and> cameraLatitude eng st \<le> ymax \<and>
      cameraHeight eng st \<le> zmax) \<and>
   (fst (testCameraBBOX eng xmin ymin xmax ymax zmax st) = Inr True \<longleftrightarrow>
      cameraLongitude eng st < xmin \<or> xmax < cameraLongitude eng st \<or>
      cameraLatitude eng st < ymin \<or> ymax < cameraLatitude eng st \<or>
      zmax < cameraHeight eng st)"
  by (auto simp: testCameraBBOX_def cameraLongitude_def cameraLatitude_def cameraHeight_def
      Let_def)

text \<open>
  The first scenario of the specification: in the box from 80 to 70 degrees west and 30 to
  40 degrees north, up to 10000 metres, a camera at 75 degrees west is in bounds and one at
  69 degrees west is out of bounds.
\<close>

theorem testCameraBBOX_closed_box_witness:
  "fst (testCameraBBOX flatEngine (-80) 30 (-70) 40 10000 (cameraAt (-75) 35 5000)) = Inr False \<and>
   fst (testCameraBBOX flatEngine (-80) 30 (-70) 40 10000 (cameraAt (-69) 35 5000)) = Inr True"
  using testCameraBBOX_closed_box
      [where eng = flatEngine and xmin = "-80" and ymin = 30 and xmax = "-70" and ymax = 40
         and zmax = 10000 and st = "cameraAt (-75) 35 5000"]
    testCameraBBOX_closed_box
      [where eng = flatEngine and xmin = "-80" and ymin = 30 and xmax = "-70" and ymax = 40
         and zmax = 10000 and st = "cameraAt (-69) 35 5000"]
  by (simp add: flat_lon flat_lat flat_height)

subsection \<open>What a test does to the state\<close>

text \<open>A test writes to no object that existed before it: it only makes new ones.\<close>

lemma projectOnEllipsoid_state:
  "\<exists>ys. snd (projectOnEllipsoid eng p st) = st\<lparr>heap := heap st @ ys\<rparr>"
proof (cases "scaleToGeodeticSurface eng p")
  case None
  then have "snd (projectOnEllipsoid eng p st) = st\<lparr>heap := heap st @ []\<rparr>"
    by (simp add: projectOnEllipsoid_def)
  then show ?thesis by blast
next
  case (Some q)
  then have "snd (projectOnEllipsoid eng p st) = st\<lparr>heap := heap st @ [q]\<rparr>"
    by (simp add: projectOnEllipsoid_def alloc_def)
  then show ?thesis by blast
qed

lemma testCameraDistanceFromEntity_state:
  "\<exists>ys. snd (testCameraDistanceFromEntity eng ent distance zmax st) =
     st\<lparr>heap := heap st @ ys\<rparr>"
proof -
  obtain ys where 1:
    "snd (projectOnEllipsoid eng (heap st ! position (camera st)) st) =
       st\<lparr>heap := heap st @ ys\<rparr>"
    using projectOnEllipsoid_state by blast
  show ?thesis
  proof (cases "entityPosition ent")
    case None
    with 1 have "snd (testCameraDistanceFromEntity eng ent distance zmax st) =
        st\<lparr>heap := heap st @ ys\<rparr>"
      by (auto simp add: testCameraDistanceFromEntity_def Let_def split: prod.splits)
    then show ?thesis by blast
  next
    case (Some ep)
    obtain zs where 2:
      "snd (projectOnEllipsoid eng ep (st\<lparr>heap := heap st @ ys\<rparr>)) =
         st\<lparr>heap := heap st @ ys @ zs\<rparr>"
      using projectOnEllipsoid_state [of eng ep "st\<lparr>heap := heap st @ ys\<rparr>"] by auto
    with 1 Some have "snd (testCameraDistanceFromEntity eng ent distance zmax st) =
        st\<lparr>heap := heap st @ ys @ zs\<rparr>"
      by (auto simp add: testCameraDistanceFromEntity_def Let_def
          split: prod.splits option.splits)
    then show ?thesis by blast
  qed
qed

lemma apply_test_state:
  "\<exists>ys. snd (apply_test eng t st) = st\<lparr>heap := heap st @ ys\<rparr>"
proof (cases t)
  case (TestCameraBBOX xmin ymin xmax ymax zmax)
  then have "snd (apply_test eng t st) = st\<lparr>heap := heap st @ []\<rparr>"
    by (simp add: testCameraBBOX_def Let_def)
  then show ?thesis by blast
next
  case (TestCameraDistanceFromEntity ent distance zmax)
  then show ?thesis using testCameraDistanceFromEntity_state by simp
qed

text \<open>
  C10. Evaluating either test leaves the guard and the camera as they are.
  \<^verbatim>\<open>testCameraBBOX\<close> returns the state it was given. \<^verbatim>\<open>testCameraDistanceFromEntity\<close>
  leaves \<^verbatim>\<open>previousCameraPosition\<close>, \<^verbatim>\<open>previousCameraOrientation\<close>, the subscription
  handle, the listeners, the camera and the log of effects unchanged, and every object that
  existed before the call holds the numbers it held: the projections it computes go into
  objects of their own. So in a well-formed state the camera's pose and the stored pose are
  after the call what they were before it.
\<close>

theorem tests_leave_state:
  "snd (testCameraBBOX eng xmin ymin xmax ymax zmax st) = st \<and>
   (let st' = snd (testCameraDistanceFromEntity eng ent distance zmax' st)
    in previousCameraPosition st' = previousCameraPosition st \<and>
       previousCameraOrientation st' = previousCameraOrientation st \<and>
       cameraMovementListener st' = cameraMovementListener st \<and>
       preRender st' = preRender st \<and>
       camera st' = camera st \<and>
       take (length (heap st)) (heap st') = heap st \<and>
       trace st' = trace st \<and>
       (wellFormed st \<longrightarrow> cameraPose st' = cameraPose st \<and> lastValidPose st' = lastValidPose st))"
proof -
  obtain ys where
    "snd (testCameraDistanceFromEntity eng ent distance zmax' st) = st\<lparr>heap := heap st @ ys\<rparr>"
    using testCameraDistanceFromEntity_state by blast
  then show ?thesis
    by (auto simp: testCameraBBOX_def Let_def wellFormed_def cameraPose_def lastValidPose_def
        nth_append split: option.splits)
qed

text \<open>
  On the unit sphere the entity test makes two objects, for the two projections, and the
  camera stays where it was.
\<close>

theorem tests_leave_state_witness:
  "wellFormed (cameraAt 2 0 0) \<and>
   cameraPose (cameraAt 2 0 0) = (Cartesian3 2 0 0, \<lparr>heading = 0, pitch = 0, roll = 0\<rparr>) \<and>
   cameraPose (snd (testCameraDistanceFromEntity unitSphere exampleAntipode 3 5 (cameraAt 2 0 0))) =
     (Cartesian3 2 0 0, \<lparr>heading = 0, pitch = 0, roll = 0\<rparr>) \<and>
   lastValidPose (snd (testCameraDistanceFromEntity unitSphere exampleAntipode 3 5 (cameraAt 2 0 0))) =
     None \<and>
   snd (testCameraBBOX flatEngine (-80) 30 (-70) 40 10000 (cameraAt 2 0 0)) = cameraAt 2 0 0"
proof -
  have wf: "wellFormed (cameraAt 2 0 0)"
    by (simp add: wellFormed_def cameraAt_def CameraBounds_def init_def)
  have pose: "cameraPose (cameraAt 2 0 0) =
      (Cartesian3 2 0 0, \<lparr>heading = 0, pitch = 0, roll = 0\<rparr>)"
    by (simp add: cameraPose_def cameraAt_def CameraBounds_def init_def)
  have none: "lastValidPose (cameraAt 2 0 0) = None"
    by (simp add: lastValidPose_def cameraAt_def CameraBounds_def init_def)
  from tests_leave_state
    [where eng = unitSphere and ent = exampleAntipode and distance = 3 and zmax' = 5
       and st = "cameraAt 2 0 0"]
    tests_leave_state
    [where eng = flatEngine and xmin = "-80" and ymin = 30 and xmax = "-70" and ymax = 40
       and zmax = 10000 and st = "cameraAt 2 0 0"]
    wf pose none
  show ?thesis by (simp add: Let_def)
qed

subsection \<open>The three ways through the callback\<close>

lemma checkCameraPosition_raise:
  assumes "fst (apply_test eng t st) = Inl e"
  shows "checkCameraPosition eng t st = (Inl e, snd (apply_test eng t st))"
  using assms by (cases "apply_test eng t st") (simp add: checkCameraPosition_def)

lemma checkCameraPosition_violation:
  assumes "fst (apply_test eng t st) = Inr True"
  shows "checkCameraPosition eng t st =
     (Inr (),
      dispatchEvent ''cameraBlocked''
        (setView eng (previousCameraPosition st) (previousCameraOrientation st)
           (snd (apply_test eng t st))))"
proof -
  obtain ys where "snd (apply_test eng t st) = st\<lparr>heap := heap st @ ys\<rparr>"
    using apply_test_state by blast
  with assms show ?thesis
    by (cases "apply_test eng t st") (simp add: checkCameraPosition_def)
qed

lemma checkCameraPosition_in_bounds:
  assumes "fst (apply_test eng t st) = Inr False"
  shows "checkCameraPosition eng t st =
     (Inr (),
      (snd (apply_test eng t st))
        \<lparr>heap := heap (snd (apply_test eng t st)) @
                  [heap (snd (apply_test eng t st)) ! position (camera st)],
         previousCameraPosition := Some (length (heap (snd (apply_test eng t st)))),
         previousCameraOrientation :=
           Some \<lparr>heading = heading (camera st), pitch = pitch (camera st),
                 roll = roll (camera st)\<rparr>\<rparr>)"
proof -
  obtain ys where "snd (apply_test eng t st) = st\<lparr>heap := heap st @ ys\<rparr>"
    using apply_test_state by blast
  with assms show ?thesis
    by (cases "apply_test eng t st")
      (simp add: checkCameraPosition_def Cartesian3_clone_def alloc_def)
qed

text \<open>The effect of a check that finds a violation.\<close>

lemma violation_effect:
  assumes violation: "fst (apply_test eng t st) = Inr True"
    and wf: "wellFormed st"
  shows "fst (checkCameraPosition eng t st) = Inr () \<and>
    trace (snd (checkCameraPosition eng t st)) =
      trace st @ [SetView (previousCameraPosition st) (previousCameraOrientation st),
                  DispatchEvent ''cameraBlocked''] \<and>
    previousCameraPosition (snd (checkCameraPosition eng t st)) = previousCameraPosition st \<and>
    previousCameraOrientation (snd (checkCameraPosition eng t st)) =
      previousCameraOrientation st \<and>
    lastValidPose (snd (checkCameraPosition eng t st)) = lastValidPose st \<and>
    (\<forall>pose0. lastValidPose st = Some pose0 \<longrightarrow>
       cameraPose (snd (checkCameraPosition eng t st)) = pose0)"
proof -
  obtain ys where ys: "snd (apply_test eng t st) = st\<lparr>heap := heap st @ ys\<rparr>"
    using apply_test_state by blast
  have run: "checkCameraPosition eng t st =
      (Inr (), dispatchEvent ''cameraBlocked''
        (setView eng (previousCameraPosition st) (previousCameraOrientation st)
           (st\<lparr>heap := heap st @ ys\<rparr>)))"
    using checkCameraPosition_violation [OF violation] ys by simp
  have pos: "position (camera st) < length (heap st)"
    using wf by (simp add: wellFormed_def)
  show ?thesis
  proof (cases "previousCameraPosition st")
    case None
    then show ?thesis
      by (simp add: run dispatchEvent_def setView_def Let_def lastValidPose_def)
  next
    case (Some r)
    then have r: "r < length (heap st)"
      using wf by (simp add: wellFormed_def)
    show ?thesis
    proof (cases "previousCameraOrientation st")
      case None
      with Some show ?thesis
        by (simp add: run dispatchEvent_def setView_def Let_def lastValidPose_def)
    next
      case hpr: (Some hpr)
      with Some r pos show ?thesis
        by (simp add: run dispatchEvent_def setView_def Let_def lastValidPose_def
            cameraPose_def nth_append nth_list_update)
    qed
  qed
qed

text \<open>The effect of a check that finds the camera in bounds.\<close>

lemma in_bounds_effect:
  assumes valid: "fst (apply_test eng t st) = Inr False"
    and pos: "position (camera st) < length (heap st)"
  shows "fst (checkCameraPosition eng t st) = Inr () \<and>
    lastValidPose (snd (checkCameraPosition eng t st)) = Some (cameraPose st) \<and>
    cameraPose (snd (checkCameraPosition eng t st)) = cameraPose st \<and>
    trace (snd (checkCameraPosition eng t st)) = trace st \<and>
    previousCameraPosition (snd (checkCameraPosition eng t st)) \<noteq>
      Some (position (camera st)) \<and>
    (\<forall>p hpr. lastValidPose (moveCamera p hpr (snd (checkCameraPosition eng t st))) =
       Some (cameraPose st))"
proof -
  obtain ys where ys: "snd (apply_test eng t st) = st\<lparr>heap := heap st @ ys\<rparr>"
    using apply_test_state by blast
  have run: "checkCameraPosition eng t st =
      (Inr (),
       st\<lparr>heap := heap st @ ys @ [heap st ! position (camera st)],
          previousCameraPosition := Some (length (heap st) + length ys),
          previousCameraOrientation :=
            Some \<lparr>heading = heading (camera st), pitch = pitch (camera st),
                  roll = roll (camera st)\<rparr>\<rparr>)"
    using checkCameraPosition_in_bounds [OF valid] ys pos
    by (simp add: nth_append)
  from pos show ?thesis
    by (simp add: run lastValidPose_def cameraPose_def moveCamera_def nth_append
        nth_list_update)
qed

text \<open>The effect of a check whose test raises.\<close>

lemma raise_effect:
  assumes raise: "fst (apply_test eng t st) = Inl e"
    and wf: "wellFormed st"
  shows "fst (checkCameraPosition eng t st) = Inl e \<and>
    trace (snd (checkCameraPosition eng t st)) = trace st \<and>
    previousCameraPosition (snd (checkCameraPosition eng t st)) = previousCameraPosition st \<and>
    previousCameraOrientation (snd (checkCameraPosition eng t st)) =
      previousCameraOrientation st \<and>
    lastValidPose (snd (checkCameraPosition eng t st)) = lastValidPose st"
proof -
  obtain ys where ys: "snd (apply_test eng t st) = st\<lparr>heap := heap st @ ys\<rparr>"
    using apply_test_state by blast
  have run: "checkCameraPosition eng t st = (Inl e, st\<lparr>heap := heap st @ ys\<rparr>)"
    using checkCameraPosition_raise [OF raise] ys by simp
  from wf show ?thesis
    by (auto simp: run lastValidPose_def wellFormed_def nth_append split: option.splits)
qed

lemma raiseEvent_single:
  "preRender st = [(h, t)] \<Longrightarrow> raiseEvent eng st = checkCameraPosition eng t st"
  by (cases "checkCameraPosition eng t st")
    (auto simp: raiseEvent_def split: sum.splits)

subsection \<open>The examples, evaluated\<close>

lemma flat_bbox:
  "heap st ! position (camera st) = Cartesian3 a b h \<Longrightarrow>
     testCameraBBOX flatEngine xmin ymin xmax ymax zmax st =
       (Inr (\<not> (xmin \<le> a \<and> a \<le> xmax \<and> ymin \<le> b \<and> b \<le> ymax \<and> h \<le> zmax)), st)"
  by (simp add: testCameraBBOX_def flatEngine_def toDegrees_def Let_def)

lemma exampleInstalled_state:
  "exampleInstalled =
     \<lparr>heap = [Cartesian3 (-75) 35 5000],
      camera = \<lparr>heading = 0, pitch = 0, roll = 0, position = 0\<rparr>,
      preRender = [(0, exampleBox)], nextListener = Suc 0,
      cameraMovementListener = Some 0, previousCameraPosition = None,
      previousCameraOrientation = None, trace = [AddEventListener 0]\<rparr>"
  by (simp add: exampleInstalled_def exampleBox_def cameraAt_def CameraBounds_def init_def
      limitBBOX_def limitCamera_def disableCameraMovementLimitation_def Cesium_defined_def
      addEventListener_def Let_def)

lemma exampleRecorded_state:
  "exampleRecorded =
     \<lparr>heap = [Cartesian3 (-75) 35 5000, Cartesian3 (-75) 35 5000],
      camera = \<lparr>heading = 0, pitch = 0, roll = 0, position = 0\<rparr>,
      preRender = [(0, exampleBox)], nextListener = Suc 0,
      cameraMovementListener = Some 0, previousCameraPosition = Some 1,
      previousCameraOrientation = Some \<lparr>heading = 0, pitch = 0, roll = 0\<rparr>,
      trace = [AddEventListener 0]\<rparr>"
  by (simp add: exampleRecorded_def exampleInstalled_state raiseEvent_def exampleBox_def
      checkCameraPosition_def flat_bbox Cartesian3_clone_def alloc_def)

lemma exampleOutside_state:
  "exampleOutside =
     \<lparr>heap = [Cartesian3 (-69) 35 5000, Cartesian3 (-75) 35 5000],
      camera = \<lparr>heading = 1, pitch = 0, roll = 0, position = 0\<rparr>,
      preRender = [(0, exampleBox)], nextListener = Suc 0,
      cameraMovementListener = Some 0, previousCameraPosition = Some 1,
      previousCameraOrientation = Some \<lparr>heading = 0, pitch = 0, roll = 0\<rparr>,
      trace = [AddEventListener 0]\<rparr>"
  by (simp add: exampleOutside_def exampleRecorded_state moveCamera_def)

lemma exampleStartsOutside_state:
  "exampleStartsOutside =
     \<lparr>heap = [Cartesian3 (-69) 35 5000],
      camera = \<lparr>heading = 0, pitch = 0, roll = 0, position = 0\<rparr>,
      preRender = [(0, exampleBox)], nextListener = Suc 0,
      cameraMovementListener = Some 0, previousCameraPosition = None,
      previousCameraOrientation = None, trace = [AddEventListener 0]\<rparr>"
  by (simp add: exampleStartsOutside_def exampleBox_def cameraAt_def CameraBounds_def init_def
      limitBBOX_def limitCamera_def disableCameraMovementLimitation_def Cesium_defined_def
      addEventListener_def Let_def)

lemma exampleUnresolved_state:
  "exampleUnresolved =
     \<lparr>heap = [Cartesian3 (-75) 35 5000],
      camera = \<lparr>heading = 0, pitch = 0, roll = 0, position = 0\<rparr>,
      preRender = [(0, TestCameraDistanceFromEntity (HasPosition None) 500 100)],
      nextListener = Suc 0,
      cameraMovementListener = Some 0, previousCameraPosition = None,
      previousCameraOrientation = None, trace = [AddEventListener 0]\<rparr>"
  by (simp add: exampleUnresolved_def cameraAt_def CameraBounds_def init_def
      limitEntity_def limitCamera_def disableCameraMovementLimitation_def Cesium_defined_def
      addEventListener_def Let_def)

lemma exampleReplaced_state:
  "exampleReplaced =
     \<lparr>heap = [Cartesian3 (-69) 35 5000, Cartesian3 (-75) 35 5000],
      camera = \<lparr>heading = 1, pitch = 0, roll = 0, position = 0\<rparr>,
      preRender = [(1, TestCameraBBOX 0 0 10 10 10000)], nextListener = Suc 1,
      cameraMovementListener = Some 1, previousCameraPosition = Some 1,
      previousCameraOrientation = Some \<lparr>heading = 0, pitch = 0, roll = 0\<rparr>,
      trace = [AddEventListener 0, RemoveEventListener 0, AddEventListener 1]\<rparr>"
  by (simp add: exampleReplaced_def exampleOutside_state limitBBOX_def limitCamera_def
      disableCameraMovementLimitation_def Cesium_defined_def callHandle_def
      addEventListener_def Let_def)

subsection \<open>The frame check\<close>

text \<open>
  C1. On a frame-start check while a constraint is active (its listener is the one
  registered on \<^verbatim>\<open>preRender\<close>), if the test reports a violation, then the check returns
  normally; it calls \<^verbatim>\<open>setView\<close> once, with the stored position and orientation, and
  then dispatches exactly one \<^verbatim>\<open>cameraBlocked\<close> event, and it does nothing else to its
  collaborators; the fields \<^verbatim>\<open>previousCameraPosition\<close> and
  \<^verbatim>\<open>previousCameraOrientation\<close> and the pose they hold are unchanged; and where a last
  valid pose is stored, the camera's position and orientation after the check equal it.
\<close>

theorem revert_on_violation:
  assumes active: "preRender st = [(h, t)]"
    and violation: "fst (apply_test eng t st) = Inr True"
    and wf: "wellFormed st"
  shows "fst (raiseEvent eng st) = Inr () \<and>
    trace (snd (raiseEvent eng st)) =
      trace st @ [SetView (previousCameraPosition st) (previousCameraOrientation st),
                  DispatchEvent ''cameraBlocked''] \<and>
    previousCameraPosition (snd (raiseEvent eng st)) = previousCameraPosition st \<and>
    previousCameraOrientation (snd (raiseEvent eng st)) = previousCameraOrientation st \<and>
    lastValidPose (snd (raiseEvent eng st)) = lastValidPose st \<and>
    (\<forall>pose0. lastValidPose st = Some pose0 \<longrightarrow> cameraPose (snd (raiseEvent eng st)) = pose0)"
  using violation_effect [OF violation wf] raiseEvent_single [OF active, of eng] by simp

text \<open>
  The camera has been moved out of the box after a pose inside it was recorded: the check
  puts it back on the recorded pose and dispatches one event.
\<close>

theorem revert_on_violation_witness:
  "preRender exampleOutside = [(0, exampleBox)] \<and>
   fst (apply_test flatEngine exampleBox exampleOutside) = Inr True \<and>
   wellFormed exampleOutside \<and>
   cameraPose exampleOutside =
     (Cartesian3 (-69) 35 5000, \<lparr>heading = 1, pitch = 0, roll = 0\<rparr>) \<and>
   lastValidPose exampleOutside =
     Some (Cartesian3 (-75) 35 5000, \<lparr>heading = 0, pitch = 0, roll = 0\<rparr>) \<and>
   cameraPose (snd (raiseEvent flatEngine exampleOutside)) =
     (Cartesian3 (-75) 35 5000, \<lparr>heading = 0, pitch = 0, roll = 0\<rparr>) \<and>
   trace (snd (raiseEvent flatEngine exampleOutside)) =
     [AddEventListener 0,
      SetView (Some 1) (Some \<lparr>heading = 0, pitch = 0, roll = 0\<rparr>),
      DispatchEvent ''cameraBlocked'']"
proof -
  have active: "preRender exampleOutside = [(0, exampleBox)]"
    by (simp add: exampleOutside_state)
  have violation: "fst (apply_test flatEngine exampleBox exampleOutside) = Inr True"
    by (simp add: exampleOutside_state exampleBox_def flat_bbox)
  have wf: "wellFormed exampleOutside"
    by (simp add: exampleOutside_state wellFormed_def)
  have pose: "cameraPose exampleOutside =
      (Cartesian3 (-69) 35 5000, \<lparr>heading = 1, pitch = 0, roll = 0\<rparr>)"
    by (simp add: exampleOutside_state cameraPose_def)
  have stored: "lastValidPose exampleOutside =
      Some (Cartesian3 (-75) 35 5000, \<lparr>heading = 0, pitch = 0, roll = 0\<rparr>)"
    by (simp add: exampleOutside_state lastValidPose_def)
  have fields: "previousCameraPosition exampleOutside = Some 1"
    "previousCameraOrientation exampleOutside = Some \<lparr>heading = 0, pitch = 0, roll = 0\<rparr>"
    "trace exampleOutside = [AddEventListener 0]"
    by (simp_all add: exampleOutside_state)
  from revert_on_violation [OF active violation wf] active violation wf pose stored fields
  show ?thesis by simp
qed

text \<open>
  C4. On a frame-start check while a constraint is active, if the test reports the current
  pose P1 in bounds, then the check returns normally; afterwards the stored last valid pose
  is P1, the camera's pose is still P1, and the check has had no effect on its
  collaborators (no \<^verbatim>\<open>setView\<close>, no event). The stored position is an object other than
  the camera's own, and whatever pose the camera is moved to later, the stored pose stays
  P1.
\<close>

theorem record_when_in_bounds:
  assumes active: "preRender st = [(h, t)]"
    and valid: "fst (apply_test eng t st) = Inr False"
    and pos: "position (camera st) < length (heap st)"
  shows "fst (raiseEvent eng st) = Inr () \<and>
    lastValidPose (snd (raiseEvent eng st)) = Some (cameraPose st) \<and>
    cameraPose (snd (raiseEvent eng st)) = cameraPose st \<and>
    trace (snd (raiseEvent eng st)) = trace st \<and>
    previousCameraPosition (snd (raiseEvent eng st)) \<noteq> Some (position (camera st)) \<and>
    (\<forall>p hpr. lastValidPose (moveCamera p hpr (snd (raiseEvent eng st))) =
       Some (cameraPose st))"
  using in_bounds_effect [OF valid pos] raiseEvent_single [OF active, of eng] by simp

text \<open>
  The first frame of the example records the pose of the camera inside the box, and the
  pose is still the stored one after the camera has been moved out of the box.
\<close>

theorem record_when_in_bounds_witness:
  "preRender exampleInstalled = [(0, exampleBox)] \<and>
   fst (apply_test flatEngine exampleBox exampleInstalled) = Inr False \<and>
   position (camera exampleInstalled) < length (heap exampleInstalled) \<and>
   cameraPose exampleInstalled =
     (Cartesian3 (-75) 35 5000, \<lparr>heading = 0, pitch = 0, roll = 0\<rparr>) \<and>
   lastValidPose exampleInstalled = None \<and>
   lastValidPose exampleRecorded =
     Some (Cartesian3 (-75) 35 5000, \<lparr>heading = 0, pitch = 0, roll = 0\<rparr>) \<and>
   cameraPose exampleRecorded =
     (Cartesian3 (-75) 35 5000, \<lparr>heading = 0, pitch = 0, roll = 0\<rparr>) \<and>
   trace exampleRecorded = trace exampleInstalled \<and>
   lastValidPose exampleOutside =
     Some (Cartesian3 (-75) 35 5000, \<lparr>heading = 0, pitch = 0, roll = 0\<rparr>)"
proof -
  have active: "preRender exampleInstalled = [(0, exampleBox)]"
    by (simp add: exampleInstalled_state)
  have valid: "fst (apply_test flatEngine exampleBox exampleInstalled) = Inr False"
    by (simp add: exampleInstalled_state exampleBox_def flat_bbox)
  have pos: "position (camera exampleInstalled) < length (heap exampleInstalled)"
    by (simp add: exampleInstalled_state)
  have pose: "cameraPose exampleInstalled =
      (Cartesian3 (-75) 35 5000, \<lparr>heading = 0, pitch = 0, roll = 0\<rparr>)"
    by (simp add: exampleInstalled_state cameraPose_def)
  have none: "lastValidPose exampleInstalled = None"
    by (simp add: exampleInstalled_state lastValidPose_def)
  from record_when_in_bounds [OF active valid pos] active valid pos pose none
  show ?thesis
    by (simp add: exampleRecorded_def [symmetric] exampleOutside_def)
qed

text \<open>
  C6, as the claim states it, fails. A constraint is installed on a camera that is
  outside the box and no pose has been stored yet. On the first check the test reports a
  violation; the check does not skip the revert and does not seed the stored pose: it
  calls \<^verbatim>\<open>setView\<close> with the two \<^verbatim>\<open>null\<close> fields, dispatches \<^verbatim>\<open>cameraBlocked\<close>, and
  the stored pose is still \<^verbatim>\<open>null\<close> afterwards.
\<close>

theorem no_seeding_counterexample:
  "lastValidPose exampleStartsOutside = None \<and>
   fst (apply_test flatEngine exampleBox exampleStartsOutside) = Inr True \<and>
   trace (snd (raiseEvent flatEngine exampleStartsOutside)) =
     [AddEventListener 0, SetView None None, DispatchEvent ''cameraBlocked''] \<and>
   previousCameraPosition (snd (raiseEvent flatEngine exampleStartsOutside)) = None \<and>
   previousCameraOrientation (snd (raiseEvent flatEngine exampleStartsOutside)) = None"
  by (simp add: exampleStartsOutside_state lastValidPose_def exampleBox_def flat_bbox
      raiseEvent_def checkCameraPosition_def setView_def dispatchEvent_def Let_def)

text \<open>
  C6, amended. If a violation is detected on a frame-start check while the stored
  position and orientation are still \<^verbatim>\<open>null\<close>, the check takes the branch of every
  violation: it passes the two \<^verbatim>\<open>null\<close> values to \<^verbatim>\<open>setView\<close>, dispatches one
  \<^verbatim>\<open>cameraBlocked\<close> event, and leaves both fields \<^verbatim>\<open>null\<close>. The stored pose is seeded
  only by a check that finds the camera in bounds: a check that finds a violation, and a
  check whose test raises (which ends with that raise and has no effect on the
  collaborators), leave the two fields and the pose they hold as they were, whatever they
  were; a check that finds the camera in bounds stores the camera's pose.
\<close>

theorem violation_without_stored_pose:
  assumes active: "preRender st = [(h, t)]"
    and wf: "wellFormed st"
  shows
    "(fst (apply_test eng t st) = Inr True \<and>
      previousCameraPosition st = None \<and> previousCameraOrientation st = None \<longrightarrow>
        fst (raiseEvent eng st) = Inr () \<and>
        trace (snd (raiseEvent eng st)) =
          trace st @ [SetView None None, DispatchEvent ''cameraBlocked''] \<and>
        previousCameraPosition (snd (raiseEvent eng st)) = None \<and>
        previousCameraOrientation (snd (raiseEvent eng st)) = None \<and>
        lastValidPose (snd (raiseEvent eng st)) = None) \<and>
     (fst (apply_test eng t st) \<noteq> Inr False \<longrightarrow>
        previousCameraPosition (snd (raiseEvent eng st)) = previousCameraPosition st \<and>
        previousCameraOrientation (snd (raiseEvent eng st)) = previousCameraOrientation st \<and>
        lastValidPose (snd (raiseEvent eng st)) = lastValidPose st) \<and>
     (\<forall>e. fst (apply_test eng t st) = Inl e \<longrightarrow>
        fst (raiseEvent eng st) = Inl e \<and> trace (snd (raiseEvent eng st)) = trace st) \<and>
     (fst (apply_test eng t st) = Inr False \<longrightarrow>
        lastValidPose (snd (raiseEvent eng st)) = Some (cameraPose st))"
proof -
  have run: "raiseEvent eng st = checkCameraPosition eng t st"
    using active by (rule raiseEvent_single)
  have pos: "position (camera st) < length (heap st)"
    using wf by (simp add: wellFormed_def)
  have null: "fst (raiseEvent eng st) = Inr () \<and>
        trace (snd (raiseEvent eng st)) =
          trace st @ [SetView None None, DispatchEvent ''cameraBlocked''] \<and>
        previousCameraPosition (snd (raiseEvent eng st)) = None \<and>
        previousCameraOrientation (snd (raiseEvent eng st)) = None \<and>
        lastValidPose (snd (raiseEvent eng st)) = None"
    if violation: "fst (apply_test eng t st) = Inr True"
      and none: "previousCameraPosition st = None" "previousCameraOrientation st = None"
  proof -
    have "lastValidPose st = None"
      using none by (simp add: lastValidPose_def)
    with violation_effect [OF violation wf] run none show ?thesis by simp
  qed
  have kept: "previousCameraPosition (snd (raiseEvent eng st)) = previousCameraPosition st \<and>
        previousCameraOrientation (snd (raiseEvent eng st)) = previousCameraOrientation st \<and>
        lastValidPose (snd (raiseEvent eng st)) = lastValidPose st"
    if other: "fst (apply_test eng t st) \<noteq> Inr False"
  proof (cases "fst (apply_test eng t st)")
    case (Inl e)
    with raise_effect [OF Inl wf] run show ?thesis by simp
  next
    case (Inr v)
    with other have "fst (apply_test eng t st) = Inr True" by (cases v) simp_all
    with violation_effect [OF this wf] run show ?thesis by simp
  qed
  have raised: "fst (raiseEvent eng st) = Inl e \<and> trace (snd (raiseEvent eng st)) = trace st"
    if "fst (apply_test eng t st) = Inl e" for e
    using raise_effect [OF that wf] run by simp
  have stored: "lastValidPose (snd (raiseEvent eng st)) = Some (cameraPose st)"
    if "fst (apply_test eng t st) = Inr False"
    using in_bounds_effect [OF that pos] run by simp
  from null kept raised stored show ?thesis by blast
qed

text \<open>
  The camera that starts outside the box: the first check reports the violation and the
  stored pose stays \<^verbatim>\<open>null\<close>. The entity without a position: the check ends with the
  raise and the stored pose stays \<^verbatim>\<open>null\<close>. The camera that starts inside the box: the
  first check stores its pose.
\<close>

theorem violation_without_stored_pose_witness:
  "preRender exampleStartsOutside = [(0, exampleBox)] \<and>
   wellFormed exampleStartsOutside \<and>
   fst (apply_test flatEngine exampleBox exampleStartsOutside) = Inr True \<and>
   previousCameraPosition exampleStartsOutside = None \<and>
   previousCameraOrientation exampleStartsOutside = None \<and>
   fst (raiseEvent flatEngine exampleStartsOutside) = Inr () \<and>
   lastValidPose (snd (raiseEvent flatEngine exampleStartsOutside)) = None \<and>
   preRender exampleUnresolved =
     [(0, TestCameraDistanceFromEntity (HasPosition None) 500 100)] \<and>
   wellFormed exampleUnresolved \<and>
   fst (apply_test flatEngine (TestCameraDistanceFromEntity (HasPosition None) 500 100)
          exampleUnresolved) = Inl TypeError \<and>
   fst (raiseEvent flatEngine exampleUnresolved) = Inl TypeError \<and>
   trace (snd (raiseEvent flatEngine exampleUnresolved)) = trace exampleUnresolved \<and>
   previousCameraPosition (snd (raiseEvent flatEngine exampleUnresolved)) = None \<and>
   previousCameraOrientation (snd (raiseEvent flatEngine exampleUnresolved)) = None \<and>
   preRender exampleInstalled = [(0, exampleBox)] \<and>
   wellFormed exampleInstalled \<and>
   fst (apply_test flatEngine exampleBox exampleInstalled) = Inr False \<and>
   lastValidPose (snd (raiseEvent flatEngine exampleInstalled)) =
     Some (cameraPose exampleInstalled)"
proof -
  have active: "preRender exampleStartsOutside = [(0, exampleBox)]"
    by (simp add: exampleStartsOutside_state)
  have wf: "wellFormed exampleStartsOutside"
    by (simp add: exampleStartsOutside_state wellFormed_def)
  have violation: "fst (apply_test flatEngine exampleBox exampleStartsOutside) = Inr True"
    by (simp add: exampleStartsOutside_state exampleBox_def flat_bbox)
  have none: "previousCameraPosition exampleStartsOutside = None"
    "previousCameraOrientation exampleStartsOutside = None"
    by (simp_all add: exampleStartsOutside_state)
  have a: "fst (raiseEvent flatEngine exampleStartsOutside) = Inr () \<and>
      lastValidPose (snd (raiseEvent flatEngine exampleStartsOutside)) = None"
    using violation_without_stored_pose [OF active wf, of flatEngine] violation none
    by blast
  have active': "preRender exampleUnresolved =
      [(0, TestCameraDistanceFromEntity (HasPosition None) 500 100)]"
    by (simp add: exampleUnresolved_state)
  have wf': "wellFormed exampleUnresolved"
    by (simp add: exampleUnresolved_state wellFormed_def)
  have none': "previousCameraPosition exampleUnresolved = None"
    "previousCameraOrientation exampleUnresolved = None"
    by (simp_all add: exampleUnresolved_state)
  have raise: "fst (apply_test flatEngine
      (TestCameraDistanceFromEntity (HasPosition None) 500 100) exampleUnresolved) =
      Inl TypeError"
    by (simp add: exampleUnresolved_state testCameraDistanceFromEntity_def
        projectOnEllipsoid_def alloc_def flatEngine_def Let_def)
  have b: "fst (raiseEvent flatEngine exampleUnresolved) = Inl TypeError \<and>
      trace (snd (raiseEvent flatEngine exampleUnresolved)) = trace exampleUnresolved \<and>
      previousCameraPosition (snd (raiseEvent flatEngine exampleUnresolved)) =
        previousCameraPosition exampleUnresolved \<and>
      previousCameraOrientation (snd (raiseEvent flatEngine exampleUnresolved)) =
        previousCameraOrientation exampleUnresolved"
    using violation_without_stored_pose [OF active' wf', of flatEngine] raise
    by (metis sum.distinct(1))
  have active'': "preRender exampleInstalled = [(0, exampleBox)]"
    by (simp add: exampleInstalled_state)
  have wf'': "wellFormed exampleInstalled"
    by (simp add: exampleInstalled_state wellFormed_def)
  have valid: "fst (apply_test flatEngine exampleBox exampleInstalled) = Inr False"
    by (simp add: exampleInstalled_state exampleBox_def flat_bbox)
  have c: "lastValidPose (snd (raiseEvent flatEngine exampleInstalled)) =
      Some (cameraPose exampleInstalled)"
    using violation_without_stored_pose [OF active'' wf'', of flatEngine] valid by blast
  from active wf violation none a active' wf' raise b none' active'' wf'' valid c
  show ?thesis by simp
qed

subsection \<open>One listener at a time\<close>

lemma checkCameraPosition_invariant:
  assumes "guardInvariant st"
  shows "guardInvariant (snd (checkCameraPosition eng t st)) \<and>
    preRender (snd (checkCameraPosition eng t st)) = preRender st \<and>
    nextListener (snd (checkCameraPosition eng t st)) = nextListener st"
proof -
  obtain ys where ys: "snd (apply_test eng t st) = st\<lparr>heap := heap st @ ys\<rparr>"
    using apply_test_state by blast
  consider (raise) e where "fst (apply_test eng t st) = Inl e"
    | (violation) "fst (apply_test eng t st) = Inr True"
    | (valid) "fst (apply_test eng t st) = Inr False"
    by (cases "fst (apply_test eng t st)") auto
  then show ?thesis
  proof cases
    case raise
    with assms ys show ?thesis
      by (auto simp: checkCameraPosition_raise guardInvariant_def wellFormed_def
          split: option.splits)
  next
    case violation
    with assms ys show ?thesis
      by (auto simp: checkCameraPosition_violation guardInvariant_def wellFormed_def
          dispatchEvent_def setView_def Let_def split: option.splits)
  next
    case valid
    with assms ys show ?thesis
      by (auto simp: checkCameraPosition_in_bounds guardInvariant_def wellFormed_def
          split: option.splits)
  qed
qed

lemma runListeners_invariant:
  "guardInvariant st \<Longrightarrow>
     guardInvariant (snd (runListeners eng ls st)) \<and>
     preRender (snd (runListeners eng ls st)) = preRender st \<and>
     nextListener (snd (runListeners eng ls st)) = nextListener st"
proof (induction ls arbitrary: st)
  case Nil
  then show ?case by simp
next
  case (Cons l ls)
  obtain h t where l: "l = (h, t)" by (cases l)
  obtain res st1 where c: "checkCameraPosition eng t st = (res, st1)"
    by (cases "checkCameraPosition eng t st")
  have st1: "guardInvariant st1 \<and> preRender st1 = preRender st \<and>
      nextListener st1 = nextListener st"
    using checkCameraPosition_invariant [OF Cons.prems, of eng t] c by simp
  show ?case
  proof (cases res)
    case (Inl e)
    with l c st1 show ?thesis by simp
  next
    case (Inr u)
    with l c st1 Cons.IH [of st1] show ?thesis by simp
  qed
qed

lemma raiseEvent_invariant:
  "guardInvariant st \<Longrightarrow>
     guardInvariant (snd (raiseEvent eng st)) \<and>
     preRender (snd (raiseEvent eng st)) = preRender st \<and>
     nextListener (snd (raiseEvent eng st)) = nextListener st"
  unfolding raiseEvent_def by (rule runListeners_invariant)

lemma removeFirst_only: "map fst ls = [h] \<Longrightarrow> removeFirst h ls = []"
  by (cases ls) auto

lemma disable_invariant:
  assumes "guardInvariant st"
  shows "guardInvariant (disableCameraMovementLimitation st) \<and>
    preRender (disableCameraMovementLimitation st) = [] \<and>
    cameraMovementListener (disableCameraMovementLimitation st) = None \<and>
    nextListener (disableCameraMovementLimitation st) = nextListener st"
  using assms
  by (auto simp: guardInvariant_def wellFormed_def disableCameraMovementLimitation_def
      Cesium_defined_def callHandle_def removeFirst_only split: option.splits)

lemma limitCamera_invariant:
  assumes "guardInvariant st"
  shows "guardInvariant (limitCamera t st) \<and>
    preRender (limitCamera t st) = [(nextListener st, t)] \<and>
    cameraMovementListener (limitCamera t st) = Some (nextListener st) \<and>
    nextListener (limitCamera t st) = Suc (nextListener st)"
  using disable_invariant [OF assms]
  by (auto simp: limitCamera_def addEventListener_def Let_def guardInvariant_def wellFormed_def
      split: option.splits)

lemma moveCamera_invariant:
  "guardInvariant st \<Longrightarrow>
     guardInvariant (moveCamera p hpr st) \<and> preRender (moveCamera p hpr st) = preRender st \<and>
     nextListener (moveCamera p hpr st) = nextListener st"
  by (auto simp: guardInvariant_def wellFormed_def moveCamera_def split: option.splits)

lemma reachable_invariant: "reachable eng st \<Longrightarrow> guardInvariant st"
proof (induction rule: reachable.induct)
  case (created c h)
  then show ?case
    by (simp add: guardInvariant_def wellFormed_def CameraBounds_def init_def)
next
  case (bbox st xmin ymin xmax ymax zmax)
  then show ?case by (simp add: limitBBOX_def limitCamera_invariant)
next
  case (entity st ent distance zmax)
  then show ?case by (simp add: limitEntity_def limitCamera_invariant)
next
  case (released st)
  then show ?case by (simp add: disable_invariant)
next
  case (moved st p hpr)
  then show ?case by (simp add: moveCamera_invariant)
next
  case (frame st)
  then show ?case by (simp add: raiseEvent_invariant)
qed



lemma example_reachable: "reachable flatEngine exampleOutside"
  unfolding exampleOutside_def exampleRecorded_def exampleInstalled_def cameraAt_def
  by (intro reachable.moved reachable.frame reachable.bbox reachable.created) simp



text \<open>
  C7, as the claim states it, fails. The second box is installed while a pose recorded
  under the first is stored and the camera stands outside both. The first check after the
  installation reports the violation: it reverts the camera to the pose stored under the
  first box and dispatches \<^verbatim>\<open>cameraBlocked\<close>; the stored pose is not the pose the camera
  had at that check.
\<close>

theorem first_check_counterexample:
  "cameraPose exampleReplaced =
     (Cartesian3 (-69) 35 5000, \<lparr>heading = 1, pitch = 0, roll = 0\<rparr>) \<and>
   trace exampleReplaced = [AddEventListener 0, RemoveEventListener 0, AddEventListener 1] \<and>
   trace (snd (raiseEvent flatEngine exampleReplaced)) =
     [AddEventListener 0, RemoveEventListener 0, AddEventListener 1,
      SetView (Some 1) (Some \<lparr>heading = 0, pitch = 0, roll = 0\<rparr>),
      DispatchEvent ''cameraBlocked''] \<and>
   cameraPose (snd (raiseEvent flatEngine exampleReplaced)) =
     (Cartesian3 (-75) 35 5000, \<lparr>heading = 0, pitch = 0, roll = 0\<rparr>) \<and>
   lastValidPose (snd (raiseEvent flatEngine exampleReplaced)) =
     Some (Cartesian3 (-75) 35 5000, \<lparr>heading = 0, pitch = 0, roll = 0\<rparr>)"
  by (simp add: exampleReplaced_state cameraPose_def lastValidPose_def flat_bbox
      raiseEvent_def checkCameraPosition_def setView_def dispatchEvent_def Let_def)

lemma limitCamera_keeps:
  "heap (limitCamera t st) = heap st \<and> camera (limitCamera t st) = camera st \<and>
   previousCameraPosition (limitCamera t st) = previousCameraPosition st \<and>
   previousCameraOrientation (limitCamera t st) = previousCameraOrientation st"
  by (simp add: limitCamera_def addEventListener_def disableCameraMovementLimitation_def
      callHandle_def Let_def)

text \<open>
  C7, amended. After installing a new constraint, the first frame-start check is the
  check of the new test on the current pose, as every later one is; installing leaves the
  stored pose as it was. The check passes as valid (no revert, no \<^verbatim>\<open>cameraBlocked\<close>
  event, the camera is not moved) and records the current pose exactly when the test
  reports the current pose in bounds. When the test reports a violation, the check calls
  \<^verbatim>\<open>setView\<close> with the pose stored before the installation, dispatches
  \<^verbatim>\<open>cameraBlocked\<close>, and leaves the stored pose as it was.
\<close>

theorem first_check_after_install:
  assumes "reachable eng st"
  shows "raiseEvent eng (limitCamera t st) = checkCameraPosition eng t (limitCamera t st) \<and>
    lastValidPose (limitCamera t st) = lastValidPose st \<and>
    (fst (apply_test eng t (limitCamera t st)) = Inr False \<longrightarrow>
       fst (raiseEvent eng (limitCamera t st)) = Inr () \<and>
       trace (snd (raiseEvent eng (limitCamera t st))) = trace (limitCamera t st) \<and>
       cameraPose (snd (raiseEvent eng (limitCamera t st))) = cameraPose (limitCamera t st) \<and>
       lastValidPose (snd (raiseEvent eng (limitCamera t st))) =
         Some (cameraPose (limitCamera t st))) \<and>
    (fst (apply_test eng t (limitCamera t st)) = Inr True \<longrightarrow>
       fst (raiseEvent eng (limitCamera t st)) = Inr () \<and>
       trace (snd (raiseEvent eng (limitCamera t st))) =
         trace (limitCamera t st) @
           [SetView (previousCameraPosition st) (previousCameraOrientation st),
            DispatchEvent ''cameraBlocked''] \<and>
       lastValidPose (snd (raiseEvent eng (limitCamera t st))) = lastValidPose st)"
proof -
  have inv: "guardInvariant st" using assms by (rule reachable_invariant)
  have inv': "guardInvariant (limitCamera t st)"
    and pre: "preRender (limitCamera t st) = [(nextListener st, t)]"
    using limitCamera_invariant [OF inv, of t] by simp_all
  have wf: "wellFormed (limitCamera t st)"
    and pos: "position (camera (limitCamera t st)) < length (heap (limitCamera t st))"
    using inv' by (simp_all add: guardInvariant_def wellFormed_def)
  have run: "raiseEvent eng (limitCamera t st) = checkCameraPosition eng t (limitCamera t st)"
    using pre by (rule raiseEvent_single)
  have same: "lastValidPose (limitCamera t st) = lastValidPose st"
    by (simp add: lastValidPose_def limitCamera_keeps split: option.splits)
  show ?thesis
  proof (intro conjI impI)
    assume valid: "fst (apply_test eng t (limitCamera t st)) = Inr False"
    show "fst (raiseEvent eng (limitCamera t st)) = Inr ()"
      "trace (snd (raiseEvent eng (limitCamera t st))) = trace (limitCamera t st)"
      "cameraPose (snd (raiseEvent eng (limitCamera t st))) = cameraPose (limitCamera t st)"
      "lastValidPose (snd (raiseEvent eng (limitCamera t st))) =
         Some (cameraPose (limitCamera t st))"
      using in_bounds_effect [OF valid pos] run by simp_all
  next
    assume violation: "fst (apply_test eng t (limitCamera t st)) = Inr True"
    show "fst (raiseEvent eng (limitCamera t st)) = Inr ()"
      "trace (snd (raiseEvent eng (limitCamera t st))) =
         trace (limitCamera t st) @
           [SetView (previousCameraPosition st) (previousCameraOrientation st),
            DispatchEvent ''cameraBlocked'']"
      "lastValidPose (snd (raiseEvent eng (limitCamera t st))) = lastValidPose st"
      using violation_effect [OF violation wf] run same by (simp_all add: limitCamera_keeps)
  qed (simp_all add: run same)
qed

text \<open>
  On the fresh guard of the example the first check finds the camera inside the box and
  records its pose; after the replacement by the second box the first check finds a
  violation.
\<close>

theorem first_check_after_install_witness:
  "reachable flatEngine (cameraAt (-75) 35 5000) \<and>
   fst (apply_test flatEngine exampleBox exampleInstalled) = Inr False \<and>
   trace exampleRecorded = trace exampleInstalled \<and>
   lastValidPose exampleRecorded = Some (cameraPose exampleInstalled) \<and>
   reachable flatEngine exampleOutside \<and>
   fst (apply_test flatEngine (TestCameraBBOX 0 0 10 10 10000) exampleReplaced) = Inr True \<and>
   lastValidPose (snd (raiseEvent flatEngine exampleReplaced)) = lastValidPose exampleOutside"
proof -
  have r: "reachable flatEngine (cameraAt (-75) 35 5000)"
    unfolding cameraAt_def by (rule reachable.created) simp
  have i: "limitCamera exampleBox (cameraAt (-75) 35 5000) = exampleInstalled"
    by (simp add: exampleInstalled_def exampleBox_def limitBBOX_def)
  have j: "limitCamera (TestCameraBBOX 0 0 10 10 10000) exampleOutside = exampleReplaced"
    by (simp add: exampleReplaced_def limitBBOX_def)
  have valid: "fst (apply_test flatEngine exampleBox exampleInstalled) = Inr False"
    by (simp add: exampleInstalled_state exampleBox_def flat_bbox)
  have violation:
    "fst (apply_test flatEngine (TestCameraBBOX 0 0 10 10 10000) exampleReplaced) = Inr True"
    by (simp add: exampleReplaced_state flat_bbox)
  have a: "trace (snd (raiseEvent flatEngine exampleInstalled)) = trace exampleInstalled \<and>
      lastValidPose (snd (raiseEvent flatEngine exampleInstalled)) =
        Some (cameraPose exampleInstalled)"
    using first_check_after_install [OF r, of exampleBox] valid unfolding i by blast
  have b: "lastValidPose (snd (raiseEvent flatEngine exampleReplaced)) =
      lastValidPose exampleOutside"
    using first_check_after_install [OF example_reachable, of "TestCameraBBOX 0 0 10 10 10000"]
      violation
    unfolding j by blast
  from a b r example_reachable valid violation show ?thesis
    by (simp add: exampleRecorded_def)
qed

subsection \<open>The entity test\<close>

lemma pi_ge_three: "3 \<le> pi"
  using sin_x_le_x [of "pi / 6"] by (simp add: sin_30)

lemma Cartesian3_distance_nonneg: "0 \<le> Cartesian3_distance p q"
  by (cases p; cases q) simp

text \<open>
  C3, as the claim states it, fails. On the unit sphere the camera stands one metre above
  the point \<open>(1, 0, 0)\<close> and the entity is at the opposite point \<open>(-1, 0, 0)\<close>; the
  maximum distance is 2.5 and the maximum height 5. Along the surface the two projected
  points are half a great circle apart, which is \<open>pi\<close> and more than 2.5, so the claim
  has the pose out of bounds; the test measures the straight segment between them, which
  is 2, and reports the pose in bounds.
\<close>

theorem surface_distance_counterexample:
  "scaleToGeodeticSurface unitSphere (fst (cameraPose (cameraAt 2 0 0))) =
     Some (Cartesian3 1 0 0) \<and>
   greatCircleDistance (Cartesian3 1 0 0) (Cartesian3 (-1) 0 0) = pi \<and>
   outOfBoundsAlongSurface unitSphere exampleAntipode (5 / 2) 5 (cameraAt 2 0 0) \<and>
   fst (testCameraDistanceFromEntity unitSphere exampleAntipode (5 / 2) 5 (cameraAt 2 0 0)) =
     Inr False"
proof -
  have p: "scaleToGeodeticSurface unitSphere (Cartesian3 2 0 0) = Some (Cartesian3 1 0 0)"
    "scaleToGeodeticSurface unitSphere (Cartesian3 (-1) 0 0) = Some (Cartesian3 (-1) 0 0)"
    by (simp_all add: unitSphere_def)
  have h: "height (positionCartographic unitSphere (Cartesian3 2 0 0)) = 1"
    by (simp add: unitSphere_def)
  have c: "fst (cameraPose (cameraAt 2 0 0)) = Cartesian3 2 0 0"
    by (simp add: cameraPose_def cameraAt_def CameraBounds_def init_def)
  have g: "greatCircleDistance (Cartesian3 1 0 0) (Cartesian3 (-1) 0 0) = pi"
    by simp
  have claim: "outOfBoundsAlongSurface unitSphere exampleAntipode (5 / 2) 5 (cameraAt 2 0 0)"
    using pi_ge_three by (simp add: outOfBoundsAlongSurface_def c p exampleAntipode_def)
  have code:
    "fst (testCameraDistanceFromEntity unitSphere exampleAntipode (5 / 2) 5 (cameraAt 2 0 0)) =
       Inr False"
    by (simp add: testCameraDistanceFromEntity_def projectOnEllipsoid_def alloc_def p h
        exampleAntipode_def cameraAt_def CameraBounds_def init_def Let_def)
  from p c g claim code show ?thesis by simp
qed

text \<open>
  C3, amended. For an entity whose position resolves, and a camera and an entity that
  both have a projection onto the surface of the reference ellipsoid, the entity test
  returns normally and reports "out of bounds" if and only if either the distance between
  the two projected points exceeds the configured maximum distance, that distance being
  the length of the straight segment between the two projected points
  (\<^verbatim>\<open>Cesium.Cartesian3.distance\<close>), not a length along the surface, or the camera's own
  ellipsoidal height exceeds the configured maximum height; either condition alone
  suffices.
\<close>

theorem entity_test_straight_line:
  assumes "entityPosition ent = Some ep"
    and "scaleToGeodeticSurface eng (heap st ! position (camera st)) = Some a"
    and "scaleToGeodeticSurface eng ep = Some b"
    and "position (camera st) < length (heap st)"
  shows "fst (testCameraDistanceFromEntity eng ent distance zmax st) =
    Inr (distance < Cartesian3_distance a b \<or> zmax < cameraHeight eng st)"
  using assms
  by (simp add: testCameraDistanceFromEntity_def projectOnEllipsoid_def alloc_def Let_def
      cameraHeight_def nth_append)

text \<open>
  The second scenario of the specification, on the unit sphere: the two projected points
  are 2 apart, more than the allowed 1.5, and the camera is reported out of bounds although
  its height 1 is below the ceiling 5.
\<close>

theorem entity_test_straight_line_witness:
  "entityPosition exampleAntipode = Some (Cartesian3 (-1) 0 0) \<and>
   scaleToGeodeticSurface unitSphere
     (heap (cameraAt 2 0 0) ! position (camera (cameraAt 2 0 0))) = Some (Cartesian3 1 0 0) \<and>
   scaleToGeodeticSurface unitSphere (Cartesian3 (-1) 0 0) = Some (Cartesian3 (-1) 0 0) \<and>
   position (camera (cameraAt 2 0 0)) < length (heap (cameraAt 2 0 0)) \<and>
   Cartesian3_distance (Cartesian3 1 0 0) (Cartesian3 (-1) 0 0) = 2 \<and>
   cameraHeight unitSphere (cameraAt 2 0 0) = 1 \<and>
   fst (testCameraDistanceFromEntity unitSphere exampleAntipode (3 / 2) 5 (cameraAt 2 0 0)) =
     Inr True"
proof -
  have e: "entityPosition exampleAntipode = Some (Cartesian3 (-1) 0 0)"
    by (simp add: exampleAntipode_def)
  have a: "scaleToGeodeticSurface unitSphere
      (heap (cameraAt 2 0 0) ! position (camera (cameraAt 2 0 0))) = Some (Cartesian3 1 0 0)"
    by (simp add: unitSphere_def cameraAt_def CameraBounds_def init_def)
  have b: "scaleToGeodeticSurface unitSphere (Cartesian3 (-1) 0 0) = Some (Cartesian3 (-1) 0 0)"
    by (simp add: unitSphere_def)
  have pos: "position (camera (cameraAt 2 0 0)) < length (heap (cameraAt 2 0 0))"
    by (simp add: cameraAt_def CameraBounds_def init_def)
  have d: "Cartesian3_distance (Cartesian3 1 0 0) (Cartesian3 (-1) 0 0) = 2"
    by simp
  have h: "cameraHeight unitSphere (cameraAt 2 0 0) = 1"
    by (simp add: cameraHeight_def unitSphere_def cameraAt_def CameraBounds_def init_def)
  from entity_test_straight_line [OF e a b pos, of "3 / 2" 5] e a b pos d h
  show ?thesis by simp
qed

subsection \<open>The installers\<close>

lemma limitCamera_installs:
  "preRender (limitCamera t st) =
     preRender (disableCameraMovementLimitation st) @ [(nextListener st, t)] \<and>
   cameraMovementListener (limitCamera t st) = Some (nextListener st)"
  by (simp add: limitCamera_def addEventListener_def disableCameraMovementLimitation_def
      callHandle_def Let_def)

text \<open>
  C8, as the claim states it, fails. A box whose \<open>xmin\<close> 10 is greater than its \<open>xmax\<close>
  -10, and a maximum distance of -1, are installed like any other constraint: after the
  call the listener with that test is registered and the guard holds its handle.
\<close>

theorem malformed_input_counterexample:
  "preRender (limitBBOX 10 0 (-10) 5 100 (cameraAt 0 2 50)) =
     [(0, TestCameraBBOX 10 0 (-10) 5 100)] \<and>
   cameraMovementListener (limitBBOX 10 0 (-10) 5 100 (cameraAt 0 2 50)) = Some 0 \<and>
   preRender (limitEntity exampleAntipode (-1) 100 (cameraAt 0 2 50)) =
     [(0, TestCameraDistanceFromEntity exampleAntipode (-1) 100)] \<and>
   cameraMovementListener (limitEntity exampleAntipode (-1) 100 (cameraAt 0 2 50)) = Some 0"
  by (simp add: limitBBOX_def limitEntity_def limitCamera_def addEventListener_def
      disableCameraMovementLimitation_def Cesium_defined_def cameraAt_def CameraBounds_def
      init_def Let_def)

text \<open>
  C8, amended. The installers check nothing: for every call, \<^verbatim>\<open>limitBBOX\<close> and
  \<^verbatim>\<open>limitEntity\<close> register the listener of the test with the given parameters and keep
  its handle, a malformed box (\<open>xmin > xmax\<close> or \<open>ymin > ymax\<close>) and a negative maximum
  distance included. Such a box then reports every camera pose out of bounds, and a test
  with a negative maximum distance never reports a pose in bounds.
\<close>

theorem installers_accept_every_input:
  "(nextListener st, TestCameraBBOX xmin ymin xmax ymax zmax) \<in>
     set (preRender (limitBBOX xmin ymin xmax ymax zmax st)) \<and>
   cameraMovementListener (limitBBOX xmin ymin xmax ymax zmax st) = Some (nextListener st) \<and>
   (nextListener st, TestCameraDistanceFromEntity ent distance zmax) \<in>
     set (preRender (limitEntity ent distance zmax st)) \<and>
   cameraMovementListener (limitEntity ent distance zmax st) = Some (nextListener st) \<and>
   (xmax < xmin \<or> ymax < ymin \<longrightarrow>
      fst (testCameraBBOX eng xmin ymin xmax ymax zmax st') = Inr True) \<and>
   (distance < 0 \<longrightarrow>
      fst (testCameraDistanceFromEntity eng ent distance zmax st') \<noteq> Inr False)"
proof (intro conjI impI)
  assume "xmax < xmin \<or> ymax < ymin"
  then show "fst (testCameraBBOX eng xmin ymin xmax ymax zmax st') = Inr True"
    by (auto simp: testCameraBBOX_def Let_def)
next
  assume neg: "distance < 0"
  show "fst (testCameraDistanceFromEntity eng ent distance zmax st') \<noteq> Inr False"
  proof
    assume "fst (testCameraDistanceFromEntity eng ent distance zmax st') = Inr False"
    then obtain p q where "\<not> distance < Cartesian3_distance p q"
      by (auto simp: testCameraDistanceFromEntity_def Let_def
          split: prod.splits option.splits)
    with neg Cartesian3_distance_nonneg [of p q] show False by simp
  qed
qed (simp_all add: limitBBOX_def limitEntity_def limitCamera_installs)

theorem installers_accept_every_input_witness:
  "(0, TestCameraBBOX 10 0 (-10) 5 100) \<in>
     set (preRender (limitBBOX 10 0 (-10) 5 100 (cameraAt 0 2 50))) \<and>
   (0, TestCameraDistanceFromEntity exampleAntipode (-1) 100) \<in>
     set (preRender (limitEntity exampleAntipode (-1) 100 (cameraAt 0 2 50))) \<and>
   fst (testCameraBBOX flatEngine 10 0 (-10) 5 100 (cameraAt 0 2 50)) = Inr True \<and>
   fst (testCameraDistanceFromEntity unitSphere exampleAntipode (-1) 100 (cameraAt 2 0 0)) \<noteq>
     Inr False"
proof -
  have n: "nextListener (cameraAt 0 2 50) = 0"
    by (simp add: cameraAt_def CameraBounds_def init_def)
  from installers_accept_every_input
    [where st = "cameraAt 0 2 50" and xmin = 10 and ymin = 0 and xmax = "-10" and ymax = 5
       and zmax = 100 and ent = exampleAntipode and distance = "-1" and eng = flatEngine
       and st' = "cameraAt 0 2 50"]
    installers_accept_every_input
    [where st = "cameraAt 0 2 50" and xmin = 10 and ymin = 0 and xmax = "-10" and ymax = 5
       and zmax = 100 and ent = exampleAntipode and distance = "-1" and eng = unitSphere
       and st' = "cameraAt 2 0 0"]
  show ?thesis by (simp add: n)
qed

subsection \<open>Releasing\<close>

text \<open>
  C9. \<^verbatim>\<open>disableCameraMovementLimitation\<close> is idempotent: from any state, calling it
  twice gives the state that calling it once gives, the log of effects included, so the
  second call unsubscribes nothing and notifies nobody. It never raises; after it the
  guard holds no handle; and called while the guard holds no handle, it changes nothing.
\<close>

theorem release_idempotent:
  "disableCameraMovementLimitation (disableCameraMovementLimitation st) =
     disableCameraMovementLimitation st \<and>
   cameraMovementListener (disableCameraMovementLimitation st) = None \<and>
   disableCameraMovementLimitation (st\<lparr>cameraMovementListener := None\<rparr>) =
     st\<lparr>cameraMovementListener := None\<rparr>"
  by (simp add: disableCameraMovementLimitation_def Cesium_defined_def)

end
